theory Spec2Isabelle
  imports Complex_Main
begin

section \<open>Floating-point values\<close>

text \<open>
  The three scripts compute on IEEE doubles (Python \<^verbatim>\<open>float\<close>, \<^verbatim>\<open>numpy.float64\<close>).
  A double is modelled as a finite real, one of the two infinities, or NaN. The model
  keeps what the code branches on (\<^verbatim>\<open>pd.isna\<close>, comparisons with 0, NaN-skipping
  aggregations, division by a zero price giving an infinity without raising) and
  idealises the rest: finite arithmetic is exact (no rounding, no overflow to an
  infinity), and the sign of a zero is not tracked (\<open>x / 0\<close> takes the sign of \<open>x\<close>).
  Python integers that reach the arithmetic (\<^verbatim>\<open>0\<close>, \<^verbatim>\<open>-100\<close>, \<^verbatim>\<open>12\<close>) are the
  corresponding finite values.
\<close>

datatype f64 = Fin real | PInf | MInf | NaN

definition isna :: "f64 \<Rightarrow> bool" where
  "isna x = (x = NaN)"

definition inf_of :: "real \<Rightarrow> f64" where
  "inf_of s = (if 0 < s then PInf else if s < 0 then MInf else NaN)"

fun fsign :: "f64 \<Rightarrow> real" where
  "fsign (Fin x) = sgn x"
| "fsign PInf = 1"
| "fsign MInf = - 1"
| "fsign NaN = 0"

fun fneg :: "f64 \<Rightarrow> f64" where
  "fneg (Fin x) = Fin (- x)"
| "fneg PInf = MInf"
| "fneg MInf = PInf"
| "fneg NaN = NaN"

fun fadd :: "f64 \<Rightarrow> f64 \<Rightarrow> f64" where
  "fadd NaN b = NaN"
| "fadd a NaN = NaN"
| "fadd (Fin x) (Fin y) = Fin (x + y)"
| "fadd PInf MInf = NaN"
| "fadd MInf PInf = NaN"
| "fadd PInf b = PInf"
| "fadd MInf b = MInf"
| "fadd (Fin x) b = b"

definition fsub :: "f64 \<Rightarrow> f64 \<Rightarrow> f64" where
  "fsub a b = fadd a (fneg b)"

fun fmul :: "f64 \<Rightarrow> f64 \<Rightarrow> f64" where
  "fmul NaN b = NaN"
| "fmul a NaN = NaN"
| "fmul (Fin x) (Fin y) = Fin (x * y)"
| "fmul a b = inf_of (fsign a * fsign b)"

text \<open>
  Division as numpy performs it: a zero divisor gives an infinity (or NaN for \<open>0 / 0\<close>)
  with a warning, never an exception. In every division of the scripts at least one
  operand is a \<^verbatim>\<open>numpy.float64\<close> or the divisor is known to be non-zero, so Python's
  \<^verbatim>\<open>ZeroDivisionError\<close> does not arise.
\<close>

fun fdiv :: "f64 \<Rightarrow> f64 \<Rightarrow> f64" where
  "fdiv NaN b = NaN"
| "fdiv a NaN = NaN"
| "fdiv (Fin x) (Fin y) = (if y = 0 then inf_of (sgn x) else Fin (x / y))"
| "fdiv (Fin x) b = Fin 0"
| "fdiv a (Fin y) = inf_of (fsign a * (if y < 0 then - 1 else 1))"
| "fdiv a b = NaN"

fun feq :: "f64 \<Rightarrow> f64 \<Rightarrow> bool" where
  "feq (Fin x) (Fin y) = (x = y)"
| "feq PInf PInf = True"
| "feq MInf MInf = True"
| "feq a b = False"

fun fle :: "f64 \<Rightarrow> f64 \<Rightarrow> bool" where
  "fle NaN b = False"
| "fle a NaN = False"
| "fle (Fin x) (Fin y) = (x \<le> y)"
| "fle MInf b = True"
| "fle a PInf = True"
| "fle a b = False"

definition fless :: "f64 \<Rightarrow> f64 \<Rightarrow> bool" where
  "fless a b = (fle a b \<and> \<not> feq a b)"

text \<open>
  \<^verbatim>\<open>np.power\<close> on doubles is C's \<^verbatim>\<open>pow\<close>: a positive finite base gives the real
  power; a negative finite base gives NaN unless the exponent is a whole number; the
  remaining equations are the special cases of IEEE 754 for zero, one, the infinities
  and NaN.
\<close>

definition is_whole :: "real \<Rightarrow> bool" where
  "is_whole y = (y = of_int \<lfloor>y\<rfloor>)"

definition is_odd_whole :: "real \<Rightarrow> bool" where
  "is_odd_whole y = (is_whole y \<and> odd \<lfloor>y\<rfloor>)"

fun np_power :: "f64 \<Rightarrow> f64 \<Rightarrow> f64" where
  "np_power a (Fin y) =
     (if y = 0 then Fin 1
      else case a of
        NaN \<Rightarrow> NaN
      | PInf \<Rightarrow> (if 0 < y then PInf else Fin 0)
      | MInf \<Rightarrow> (if y < 0 then Fin 0 else if is_odd_whole y then MInf else PInf)
      | Fin x \<Rightarrow>
          (if 0 < x then Fin (x powr y)
           else if x = 0 then (if 0 < y then Fin 0 else PInf)
           else if is_whole y then Fin (x powi \<lfloor>y\<rfloor>)
           else NaN))"
| "np_power a NaN = (if a = Fin 1 then Fin 1 else NaN)"
| "np_power a PInf =
     (case a of
        NaN \<Rightarrow> NaN
      | Fin x \<Rightarrow> (if \<bar>x\<bar> = 1 then Fin 1 else if \<bar>x\<bar> < 1 then Fin 0 else PInf)
      | _ \<Rightarrow> PInf)"
| "np_power a MInf =
     (case a of
        NaN \<Rightarrow> NaN
      | Fin x \<Rightarrow> (if \<bar>x\<bar> = 1 then Fin 1 else if \<bar>x\<bar> < 1 then PInf else Fin 0)
      | _ \<Rightarrow> Fin 0)"

section \<open>The return calculator\<close>

text \<open>
  \<^verbatim>\<open>calculate_returns(final_value, total_invested, years)\<close>, the same text in
  \<^verbatim>\<open>rolling-20year.py\<close> (lines 74 to 90) and \<^verbatim>\<open>stock-analysis.py\<close> (lines 215 to 229):
  the zero guard, the total return, then the clamp for a non-positive final value or
  the compound growth rate through \<^verbatim>\<open>np.power\<close>.
\<close>

definition calculate_returns :: "f64 \<Rightarrow> f64 \<Rightarrow> f64 \<Rightarrow> f64 \<times> f64" where
  "calculate_returns final_value total_invested years =
     (if feq total_invested (Fin 0) \<or> feq years (Fin 0) then (Fin 0, Fin 0)
      else
        let total_return =
              fmul (fdiv (fsub final_value total_invested) total_invested) (Fin 100);
            avg_annual_return =
              (if fle final_value (Fin 0) then Fin (- 100)
               else fmul
                      (fsub (np_power (fdiv final_value total_invested) (fdiv (Fin 1) years))
                         (Fin 1))
                      (Fin 100))
        in (total_return, avg_annual_return))"

section \<open>Price data\<close>

text \<open>
  A price series is the data frame \<^verbatim>\<open>yfinance\<close> returns: one row per trading day,
  indexed by the day's timestamp, with the columns \<^verbatim>\<open>Open\<close>, \<^verbatim>\<open>High\<close>, \<^verbatim>\<open>Low\<close> and
  \<^verbatim>\<open>Close\<close> (the other columns are never read). Rows are kept in index order. A missing
  price is NaN.
\<close>

record date =
  year :: int
  month :: nat
  day :: nat

definition date_le :: "date \<Rightarrow> date \<Rightarrow> bool" where
  "date_le a b =
     (year a < year b
      \<or> (year a = year b \<and> (month a < month b \<or> (month a = month b \<and> day a \<le> day b))))"

definition date_less :: "date \<Rightarrow> date \<Rightarrow> bool" where
  "date_less a b = (date_le a b \<and> a \<noteq> b)"

record bar =
  timestamp :: date
  Open :: f64
  High :: f64
  Low :: f64
  Close :: f64

type_synonym frame = "bar list"

text \<open>A buy event as the code records it: the pair \<^verbatim>\<open>(date, price)\<close>.\<close>

type_synonym buy = "date \<times> f64"

definition chronological :: "frame \<Rightarrow> bool" where
  "chronological data = sorted_wrt (\<lambda>a b. date_less (timestamp a) (timestamp b)) data"

section \<open>The pandas operations the strategies call\<close>

text \<open>
  \<^verbatim>\<open>min\<close>, \<^verbatim>\<open>max\<close> and \<^verbatim>\<open>first\<close> of a group skip NaN and give NaN when nothing is
  left (an empty bin, or a bin whose values are all NaN). \<^verbatim>\<open>idxmin\<close> and \<^verbatim>\<open>idxmax\<close>
  give the index label of the first row that attains the extremum, and no label (NaT,
  here \<open>None\<close>) when every value is NaN: the behaviour of pandas 2, which the code
  relies on when it guards with \<^verbatim>\<open>pd.isna(buy_date)\<close>.
\<close>

definition valid :: "f64 list \<Rightarrow> f64 list" where
  "valid xs = filter (\<lambda>x. \<not> isna x) xs"

definition nan_min :: "f64 list \<Rightarrow> f64" where
  "nan_min xs =
     (case valid xs of [] \<Rightarrow> NaN | y # ys \<Rightarrow> fold (\<lambda>x m. if fless x m then x else m) ys y)"

definition nan_max :: "f64 list \<Rightarrow> f64" where
  "nan_max xs =
     (case valid xs of [] \<Rightarrow> NaN | y # ys \<Rightarrow> fold (\<lambda>x m. if fless m x then x else m) ys y)"

definition first_valid :: "f64 list \<Rightarrow> f64" where
  "first_valid xs = (case valid xs of [] \<Rightarrow> NaN | y # ys \<Rightarrow> y)"

definition idx_where :: "(bar \<Rightarrow> f64) \<Rightarrow> f64 \<Rightarrow> frame \<Rightarrow> date option" where
  "idx_where col v rows =
     (case filter (\<lambda>b. feq (col b) v) rows of [] \<Rightarrow> None | b # bs \<Rightarrow> Some (timestamp b))"

definition idxmin :: "(bar \<Rightarrow> f64) \<Rightarrow> frame \<Rightarrow> date option" where
  "idxmin col rows = idx_where col (nan_min (map col rows)) rows"

definition idxmax :: "(bar \<Rightarrow> f64) \<Rightarrow> frame \<Rightarrow> date option" where
  "idxmax col rows = idx_where col (nan_max (map col rows)) rows"

text \<open>
  Buckets. A calendar year is its number; a calendar month is numbered
  \<open>12 * year + (month - 1)\<close>. \<^verbatim>\<open>resample\<close> makes one bin for every period from the
  earliest to the latest timestamp of the frame, empty ones included, in ascending
  order; \<^verbatim>\<open>groupby(index.to_period(...))\<close> makes one group for every period that has
  a row, in ascending order. Within a bin the rows keep their order.
\<close>

definition year_of :: "bar \<Rightarrow> int" where
  "year_of b = year (timestamp b)"

definition month_index :: "date \<Rightarrow> int" where
  "month_index d = year d * 12 + int (month d) - 1"

definition month_of :: "bar \<Rightarrow> int" where
  "month_of b = month_index (timestamp b)"

definition period_range :: "int list \<Rightarrow> int list" where
  "period_range ks = (case ks of [] \<Rightarrow> [] | k # rest \<Rightarrow> [fold min rest k .. fold max rest k])"

definition rows_of :: "(bar \<Rightarrow> int) \<Rightarrow> frame \<Rightarrow> int \<Rightarrow> frame" where
  "rows_of period data k = filter (\<lambda>b. period b = k) data"

definition resample :: "(bar \<Rightarrow> int) \<Rightarrow> frame \<Rightarrow> int list" where
  "resample period data = period_range (map period data)"

definition groupby :: "(bar \<Rightarrow> int) \<Rightarrow> frame \<Rightarrow> int list" where
  "groupby period data = filter (\<lambda>k. rows_of period data k \<noteq> []) (resample period data)"

text \<open>
  Bin labels: \<^verbatim>\<open>"YE"\<close> labels a year by its last day, \<^verbatim>\<open>"YS"\<close> and
  \<^verbatim>\<open>Period.to_timestamp()\<close> by its first day, \<^verbatim>\<open>"MS"\<close> labels a month by its first day.
\<close>

definition year_end :: "int \<Rightarrow> date" where
  "year_end y = \<lparr>year = y, month = 12, day = 31\<rparr>"

definition year_start :: "int \<Rightarrow> date" where
  "year_start y = \<lparr>year = y, month = 1, day = 1\<rparr>"

definition month_start :: "int \<Rightarrow> date" where
  "month_start m = \<lparr>year = m div 12, month = nat (m mod 12) + 1, day = 1\<rparr>"

section \<open>The strategies\<close>

text \<open>
  Every strategy of \<^verbatim>\<open>rolling-20year.py\<close> and \<^verbatim>\<open>stock-analysis.py\<close> has the same loop
  over its per-bucket series: skip the bucket when the price is NaN, otherwise buy
  \<^verbatim>\<open>amount / price\<close> shares and append \<^verbatim>\<open>(date, price)\<close> to \<^verbatim>\<open>buying_points\<close>. The loop
  state is \<^verbatim>\<open>(shares_owned, buying_points)\<close>.
\<close>

fun buy_loop :: "f64 \<Rightarrow> (date \<times> f64) list \<Rightarrow> f64 \<times> buy list \<Rightarrow> f64 \<times> buy list" where
  "buy_loop amount [] (shares_owned, buying_points) = (shares_owned, buying_points)"
| "buy_loop amount ((label, price) # rest) (shares_owned, buying_points) =
     (if isna price then buy_loop amount rest (shares_owned, buying_points)
      else buy_loop amount rest
             (fadd shares_owned (fdiv amount price), buying_points @ [(label, price)]))"

text \<open>
  The loops of \<^verbatim>\<open>stock-analysis.py\<close> that also carry a buy date of their own test
  \<^verbatim>\<open>pd.isna(price) or pd.isna(buy_date)\<close>.
\<close>

fun buy_loop_dated ::
  "f64 \<Rightarrow> (date option \<times> f64) list \<Rightarrow> f64 \<times> buy list \<Rightarrow> f64 \<times> buy list" where
  "buy_loop_dated amount [] (shares_owned, buying_points) = (shares_owned, buying_points)"
| "buy_loop_dated amount ((buy_date, price) # rest) (shares_owned, buying_points) =
     (case buy_date of
        None \<Rightarrow> buy_loop_dated amount rest (shares_owned, buying_points)
      | Some d \<Rightarrow>
          if isna price then buy_loop_dated amount rest (shares_owned, buying_points)
          else buy_loop_dated amount rest
                 (fadd shares_owned (fdiv amount price), buying_points @ [(d, price)]))"

text \<open>
  \<^verbatim>\<open>data["Close"].iloc[-1]\<close> raises \<^verbatim>\<open>IndexError\<close> on a frame with no rows; it is the
  only statement of a strategy that can raise on a frame with a datetime index.
\<close>

datatype error = IndexError

subsection \<open>rolling-20year.py\<close>

text \<open>
  \<^verbatim>\<open>perfect_market_timing\<close> (lines 28 to 48) and \<^verbatim>\<open>immediate_investing\<close> (lines 51
  to 71). Their per-bucket series, \<^verbatim>\<open>data.resample("YE")["Low"].min()\<close> and
  \<^verbatim>\<open>data.resample("YS")["Open"].first()\<close>, are written the same way in
  \<^verbatim>\<open>market-analysis.py\<close>. The position is valued once, after the loop, at the close of
  the last row.
\<close>

definition yearly_lows :: "frame \<Rightarrow> (date \<times> f64) list" where
  "yearly_lows data =
     map (\<lambda>y. (year_end y, nan_min (map Low (rows_of year_of data y)))) (resample year_of data)"

definition rolling_perfect_market_timing :: "frame \<Rightarrow> f64 \<Rightarrow> error + f64 \<times> buy list" where
  "rolling_perfect_market_timing data annual_investment =
     (let (shares_owned, buying_points) =
            buy_loop annual_investment (yearly_lows data) (Fin 0, [])
      in case data of
           [] \<Rightarrow> Inl IndexError
         | _ \<Rightarrow> Inr (fmul shares_owned (Close (last data)), buying_points))"

definition yearly_first_days :: "frame \<Rightarrow> (date \<times> f64) list" where
  "yearly_first_days data =
     map (\<lambda>y. (year_start y, first_valid (map Open (rows_of year_of data y))))
       (resample year_of data)"

definition rolling_immediate_investing :: "frame \<Rightarrow> f64 \<Rightarrow> error + f64 \<times> buy list" where
  "rolling_immediate_investing data annual_investment =
     (let (shares_owned, buying_points) =
            buy_loop annual_investment (yearly_first_days data) (Fin 0, [])
      in case data of
           [] \<Rightarrow> Inl IndexError
         | _ \<Rightarrow> Inr (fmul shares_owned (Close (last data)), buying_points))"

text \<open>
  \<^verbatim>\<open>calculate_strategy_returns\<close> (lines 20 to 25): the guard for an empty frame, then
  the strategy. The warning it prints is not modelled.
\<close>

definition calculate_strategy_returns ::
  "frame \<Rightarrow> f64 \<Rightarrow> (frame \<Rightarrow> f64 \<Rightarrow> error + f64 \<times> buy list) \<Rightarrow> error + f64 \<times> buy list" where
  "calculate_strategy_returns data annual_investment strategy_func =
     (if data = [] then Inr (Fin 0, []) else strategy_func data annual_investment)"

subsection \<open>stock-analysis.py\<close>

text \<open>
  \<^verbatim>\<open>perfect_market_timing\<close> (lines 19 to 44) groups by the year of the index and
  aggregates \<^verbatim>\<open>Low\<close> with \<^verbatim>\<open>min\<close> and \<^verbatim>\<open>idxmin\<close>: the buy date is the date of the
  year's lowest low.
\<close>

definition stock_yearly_lows :: "frame \<Rightarrow> (date option \<times> f64) list" where
  "stock_yearly_lows data =
     map (\<lambda>y. (idxmin Low (rows_of year_of data y), nan_min (map Low (rows_of year_of data y))))
       (groupby year_of data)"

definition stock_perfect_market_timing :: "frame \<Rightarrow> f64 \<Rightarrow> error + f64 \<times> buy list" where
  "stock_perfect_market_timing data annual_investment =
     (let (shares_owned, buying_points) =
            buy_loop_dated annual_investment (stock_yearly_lows data) (Fin 0, [])
      in case data of
           [] \<Rightarrow> Inl IndexError
         | _ \<Rightarrow> Inr (fmul shares_owned (Close (last data)), buying_points))"

text \<open>
  \<^verbatim>\<open>immediate_investing\<close> (lines 47 to 69) takes the price from the group's first
  valid \<^verbatim>\<open>Open\<close> and the date from \<^verbatim>\<open>row.name.to_timestamp()\<close>, the start of the
  group's period.
\<close>

definition stock_yearly_first_days :: "frame \<Rightarrow> (date option \<times> f64) list" where
  "stock_yearly_first_days data =
     map (\<lambda>y. (Some (year_start y), first_valid (map Open (rows_of year_of data y))))
       (groupby year_of data)"

definition stock_immediate_investing :: "frame \<Rightarrow> f64 \<Rightarrow> error + f64 \<times> buy list" where
  "stock_immediate_investing data annual_investment =
     (let (shares_owned, buying_points) =
            buy_loop_dated annual_investment (stock_yearly_first_days data) (Fin 0, [])
      in case data of
           [] \<Rightarrow> Inl IndexError
         | _ \<Rightarrow> Inr (fmul shares_owned (Close (last data)), buying_points))"

text \<open>
  \<^verbatim>\<open>dollar_cost_averaging\<close> (lines 72 to 94) resamples by month start and invests a
  twelfth of the annual amount at the first valid \<^verbatim>\<open>Open\<close> of every month.
\<close>

definition monthly_first_days :: "frame \<Rightarrow> (date \<times> f64) list" where
  "monthly_first_days data =
     map (\<lambda>m. (month_start m, first_valid (map Open (rows_of month_of data m))))
       (resample month_of data)"

definition dollar_cost_averaging :: "frame \<Rightarrow> f64 \<Rightarrow> error + f64 \<times> buy list" where
  "dollar_cost_averaging data annual_investment =
     (let monthly_investment = fdiv annual_investment (Fin 12);
          (shares_owned, buying_points) =
            buy_loop monthly_investment (monthly_first_days data) (Fin 0, [])
      in case data of
           [] \<Rightarrow> Inl IndexError
         | _ \<Rightarrow> Inr (fmul shares_owned (Close (last data)), buying_points))"

text \<open>
  \<^verbatim>\<open>invest_at_peaks\<close> (lines 97 to 122) is \<^verbatim>\<open>perfect_market_timing\<close> with \<^verbatim>\<open>High\<close>,
  \<^verbatim>\<open>max\<close> and \<^verbatim>\<open>idxmax\<close>.
\<close>

definition yearly_peaks :: "frame \<Rightarrow> (date option \<times> f64) list" where
  "yearly_peaks data =
     map (\<lambda>y. (idxmax High (rows_of year_of data y), nan_max (map High (rows_of year_of data y))))
       (groupby year_of data)"

definition invest_at_peaks :: "frame \<Rightarrow> f64 \<Rightarrow> error + f64 \<times> buy list" where
  "invest_at_peaks data annual_investment =
     (let (shares_owned, buying_points) =
            buy_loop_dated annual_investment (yearly_peaks data) (Fin 0, [])
      in case data of
           [] \<Rightarrow> Inl IndexError
         | _ \<Rightarrow> Inr (fmul shares_owned (Close (last data)), buying_points))"

subsection \<open>market-analysis.py\<close>

text \<open>
  \<^verbatim>\<open>perfect_market_timing\<close> (lines 65 to 86) and \<^verbatim>\<open>immediate_investing\<close> (lines 89
  to 110) of \<^verbatim>\<open>market-analysis.py\<close> return the portfolio value alone and revalue
  inside the loop: after each purchase, \<^verbatim>\<open>future_data = data.loc[year_end:]\<close>
  are the rows dated on or after the bin's label, and only when there are such rows
  is \<^verbatim>\<open>portfolio_value\<close> set to \<^verbatim>\<open>shares_owned\<close> times the last of their closes. The
  loop state is \<^verbatim>\<open>(shares_owned, portfolio_value)\<close>; nothing is indexed on an empty
  frame, so the functions do not raise.
\<close>

fun market_loop :: "frame \<Rightarrow> f64 \<Rightarrow> (date \<times> f64) list \<Rightarrow> f64 \<times> f64 \<Rightarrow> f64 \<times> f64" where
  "market_loop data amount [] (shares_owned, portfolio_value) = (shares_owned, portfolio_value)"
| "market_loop data amount ((label, price) # rest) (shares_owned, portfolio_value) =
     (if isna price then market_loop data amount rest (shares_owned, portfolio_value)
      else
        let shares = fadd shares_owned (fdiv amount price);
            future_data = filter (\<lambda>b. date_le label (timestamp b)) data
        in market_loop data amount rest
             (shares,
              if future_data \<noteq> [] then fmul shares (Close (last future_data))
              else portfolio_value))"

definition market_perfect_market_timing :: "frame \<Rightarrow> f64 \<Rightarrow> f64" where
  "market_perfect_market_timing data annual_investment =
     snd (market_loop data annual_investment (yearly_lows data) (Fin 0, Fin 0))"

definition market_immediate_investing :: "frame \<Rightarrow> f64 \<Rightarrow> f64" where
  "market_immediate_investing data annual_investment =
     snd (market_loop data annual_investment (yearly_first_days data) (Fin 0, Fin 0))"

text \<open>
  The quantity the valuation claims speak of: the shares bought over a list of buy
  events, accumulated in order from zero as the loops do.
\<close>

definition shares_bought :: "f64 \<Rightarrow> buy list \<Rightarrow> f64" where
  "shares_bought amount buys = fold (\<lambda>e s. fadd s (fdiv amount (snd e))) buys (Fin 0)"

section \<open>Vocabulary of the properties\<close>

text \<open>
  The rows of a per-bucket series on which a loop buys: those whose price is not NaN.
  A row of a dated series whose date is missing is dropped first.
\<close>

definition bought :: "(date \<times> f64) list \<Rightarrow> buy list" where
  "bought rows = filter (\<lambda>e. \<not> isna (snd e)) rows"

definition dated :: "(date option \<times> f64) list \<Rightarrow> (date \<times> f64) list" where
  "dated rows =
     concat (map (\<lambda>(buy_date, price). case buy_date of None \<Rightarrow> [] | Some d \<Rightarrow> [(d, price)]) rows)"

text \<open>
  The number of buckets implied by the date span of a frame: the periods from the
  earliest to the latest one that has a row, both included.
\<close>

definition earliest :: "(bar \<Rightarrow> int) \<Rightarrow> frame \<Rightarrow> int" where
  "earliest period data = fold min (map period (tl data)) (period (hd data))"

definition latest :: "(bar \<Rightarrow> int) \<Rightarrow> frame \<Rightarrow> int" where
  "latest period data = fold max (map period (tl data)) (period (hd data))"

definition n_buckets :: "(bar \<Rightarrow> int) \<Rightarrow> frame \<Rightarrow> nat" where
  "n_buckets period data = nat (latest period data - earliest period data + 1)"

text \<open>
  At most one buy event per bucket: the periods in which the events are dated are
  pairwise different.
\<close>

definition at_most_one_per :: "(date \<Rightarrow> int) \<Rightarrow> buy list \<Rightarrow> bool" where
  "at_most_one_per period buys = distinct (map (\<lambda>e. period (fst e)) buys)"

definition within_buckets ::
  "(bar \<Rightarrow> int) \<Rightarrow> (date \<Rightarrow> int) \<Rightarrow> frame \<Rightarrow> error + f64 \<times> buy list \<Rightarrow> bool" where
  "within_buckets period date_period data result =
     (case result of
        Inl e \<Rightarrow> False
      | Inr (v, buys) \<Rightarrow> length buys \<le> n_buckets period data \<and> at_most_one_per date_period buys)"

text \<open>
  The invariants of a price series: calendar dates, strictly increasing timestamps.
\<close>

definition valid_date :: "date \<Rightarrow> bool" where
  "valid_date d = (1 \<le> month d \<and> month d \<le> 12 \<and> 1 \<le> day d \<and> day d \<le> 31)"

definition price_series :: "frame \<Rightarrow> bool" where
  "price_series data = (list_all (\<lambda>b. valid_date (timestamp b)) data \<and> chronological data)"

text \<open>Conditions on the yearly buckets that have rows, and on single values.\<close>

definition finite_pos :: "f64 \<Rightarrow> bool" where
  "finite_pos x = (case x of Fin r \<Rightarrow> 0 < r | _ \<Rightarrow> False)"

definition finite_nonneg :: "f64 \<Rightarrow> bool" where
  "finite_nonneg x = (case x of Fin r \<Rightarrow> 0 \<le> r | _ \<Rightarrow> False)"

definition yearly_low_below_open :: "frame \<Rightarrow> bool" where
  "yearly_low_below_open data =
     list_all (\<lambda>y. rows_of year_of data y = []
                  \<or> fless (nan_min (map Low (rows_of year_of data y)))
                       (first_valid (map Open (rows_of year_of data y))))
       (resample year_of data)"

definition yearly_lows_positive :: "frame \<Rightarrow> bool" where
  "yearly_lows_positive data =
     list_all (\<lambda>y. rows_of year_of data y = []
                  \<or> finite_pos (nan_min (map Low (rows_of year_of data y))))
       (resample year_of data)"

text \<open>A bar whose four prices are finite, for writing concrete series.\<close>

definition finite_bar :: "int \<Rightarrow> nat \<Rightarrow> nat \<Rightarrow> real \<Rightarrow> real \<Rightarrow> real \<Rightarrow> real \<Rightarrow> bar" where
  "finite_bar y m d opn hi lo cl =
     \<lparr>timestamp = \<lparr>year = y, month = m, day = d\<rparr>,
      Open = Fin opn, High = Fin hi, Low = Fin lo, Close = Fin cl\<rparr>"

text \<open>The buy events of a result (none when the strategy raised).\<close>

definition buys_of :: "error + f64 \<times> buy list \<Rightarrow> buy list" where
  "buys_of result = (case result of Inl e \<Rightarrow> [] | Inr (v, buys) \<Rightarrow> buys)"

section \<open>Properties of the return calculator\<close>

lemma fifth_root_of_tenth_bounds:
  "63 / 100 < (1 / 10 :: real) powr (1 / 5) \<and> (1 / 10 :: real) powr (1 / 5) < 64 / 100"
proof -
  have lo: "(63 / 100 :: real) = ((63 / 100) ^ 5) powr (1 / 5)"
    by (simp add: powr_powr flip: powr_numeral)
  have hi: "(64 / 100 :: real) = ((64 / 100) ^ 5) powr (1 / 5)"
    by (simp add: powr_powr flip: powr_numeral)
  have "((63 / 100 :: real) ^ 5) powr (1 / 5) < (1 / 10) powr (1 / 5)"
    by (rule powr_less_mono2) (simp_all add: power_divide)
  moreover have "(1 / 10 :: real) powr (1 / 5) < ((64 / 100) ^ 5) powr (1 / 5)"
    by (rule powr_less_mono2) (simp_all add: power_divide)
  ultimately show ?thesis
    using lo hi by simp
qed

lemma calculate_returns_finite:
  assumes "0 < f" and "0 < t" and "y \<noteq> 0"
  shows "calculate_returns (Fin f) (Fin t) (Fin y) =
           (Fin ((f - t) / t * 100), Fin (((f / t) powr (1 / y) - 1) * 100))"
  using assms by (simp add: calculate_returns_def fsub_def)

text \<open>
  C1 (as stated). The claim gives \<open>(-90, -100)\<close> for
  \<^verbatim>\<open>calculate_returns(100, 1000, 5)\<close>. The final value 100 is positive, so the code
  takes the compound-growth branch and the annualized figure is not the clamp value.
\<close>

theorem calculate_returns_100_1000_5_not_clamped:
  "calculate_returns (Fin 100) (Fin 1000) (Fin 5) \<noteq> (Fin (- 90), Fin (- 100))"
proof -
  have "(1 / 10 :: real) powr (1 / 5) \<noteq> 0"
    by simp
  then show ?thesis
    by (simp add: calculate_returns_def fsub_def)
qed

text \<open>
  C1 (amended). \<^verbatim>\<open>calculate_returns(100, 1000, 5)\<close> returns a total return of
  \<open>-90\<close> percent and the annualized return \<open>((100 / 1000) ** (1 / 5) - 1) * 100\<close>, which
  lies strictly between \<open>-37\<close> and \<open>-36\<close> percent; only a final value \<open>\<le> 0\<close> is
  clamped to \<open>-100\<close>.
\<close>

theorem calculate_returns_100_1000_5:
  "calculate_returns (Fin 100) (Fin 1000) (Fin 5) =
     (Fin (- 90), Fin (((100 / 1000) powr (1 / 5) - 1) * 100))
   \<and> - 37 < (((100 / 1000 :: real) powr (1 / 5) - 1) * 100)
   \<and> (((100 / 1000 :: real) powr (1 / 5) - 1) * 100) < - 36"
proof -
  have "calculate_returns (Fin 100) (Fin 1000) (Fin 5) =
          (Fin (- 90), Fin (((100 / 1000) powr (1 / 5) - 1) * 100))"
    by (simp add: calculate_returns_def fsub_def)
  moreover have "- 37 < (((100 / 1000 :: real) powr (1 / 5) - 1) * 100)"
    using fifth_root_of_tenth_bounds by simp
  moreover have "(((100 / 1000 :: real) powr (1 / 5) - 1) * 100) < - 36"
    using fifth_root_of_tenth_bounds by simp
  ultimately show ?thesis
    by blast
qed



text \<open>
  C6. For every final value (NaN and the infinities included), when
  \<open>total_invested == 0\<close> or \<open>years == 0\<close> the calculator returns \<open>(0, 0)\<close>. The model
  is a total function: the guard is tested before any division, and no later step of
  the code can raise.
\<close>

theorem calculate_returns_zero_guard:
  assumes "feq total_invested (Fin 0) \<or> feq years (Fin 0)"
  shows "calculate_returns final_value total_invested years = (Fin 0, Fin 0)"
  using assms by (simp add: calculate_returns_def)

theorem calculate_returns_zero_guard_witness:
  "feq (Fin 0) (Fin 0)
   \<and> calculate_returns (Fin 0) (Fin 0) (Fin 5) = (Fin 0, Fin 0)
   \<and> calculate_returns NaN (Fin 1000) (Fin 0) = (Fin 0, Fin 0)
   \<and> calculate_returns PInf (Fin 0) (Fin 0) = (Fin 0, Fin 0)"
proof -
  have z: "feq (Fin 0) (Fin 0)"
    by simp
  have "calculate_returns (Fin 0) (Fin 0) (Fin 5) = (Fin 0, Fin 0)"
    using calculate_returns_zero_guard [of "Fin 0" "Fin 5" "Fin 0"] z by blast
  moreover have "calculate_returns NaN (Fin 1000) (Fin 0) = (Fin 0, Fin 0)"
    using calculate_returns_zero_guard [of "Fin 1000" "Fin 0" NaN] z by blast
  moreover have "calculate_returns PInf (Fin 0) (Fin 0) = (Fin 0, Fin 0)"
    using calculate_returns_zero_guard [of "Fin 0" "Fin 0" PInf] z by blast
  ultimately show ?thesis
    using z by blast
qed

section \<open>The loops in closed form\<close>

lemma fadd_zero_left: "fadd (Fin 0) x = x"
  by (cases x) simp_all

lemma buy_loop_fold:
  "buy_loop amount rows (s, bp) =
     (fold (\<lambda>e s. fadd s (fdiv amount (snd e))) (bought rows) s, bp @ bought rows)"
  by (induction rows arbitrary: s bp) (auto simp: bought_def)

lemma buy_loop_dated_eq:
  "buy_loop_dated amount rows (s, bp) = buy_loop amount (dated rows) (s, bp)"
  by (induction rows arbitrary: s bp) (auto simp: dated_def split: option.splits)

lemma buy_loop_shares:
  "buy_loop amount rows (Fin 0, []) = (shares_bought amount (bought rows), bought rows)"
  by (simp add: buy_loop_fold shares_bought_def)

lemma rolling_pmt_eq:
  "data \<noteq> [] \<Longrightarrow>
   rolling_perfect_market_timing data amount =
     Inr (fmul (shares_bought amount (bought (yearly_lows data))) (Close (last data)),
          bought (yearly_lows data))"
  by (cases data) (simp_all add: rolling_perfect_market_timing_def buy_loop_shares)

lemma rolling_ii_eq:
  "data \<noteq> [] \<Longrightarrow>
   rolling_immediate_investing data amount =
     Inr (fmul (shares_bought amount (bought (yearly_first_days data))) (Close (last data)),
          bought (yearly_first_days data))"
  by (cases data) (simp_all add: rolling_immediate_investing_def buy_loop_shares)

lemma stock_pmt_eq:
  "data \<noteq> [] \<Longrightarrow>
   stock_perfect_market_timing data amount =
     Inr (fmul (shares_bought amount (bought (dated (stock_yearly_lows data))))
            (Close (last data)),
          bought (dated (stock_yearly_lows data)))"
  by (cases data)
    (simp_all add: stock_perfect_market_timing_def buy_loop_dated_eq buy_loop_shares)

lemma stock_ii_eq:
  "data \<noteq> [] \<Longrightarrow>
   stock_immediate_investing data amount =
     Inr (fmul (shares_bought amount (bought (dated (stock_yearly_first_days data))))
            (Close (last data)),
          bought (dated (stock_yearly_first_days data)))"
  by (cases data)
    (simp_all add: stock_immediate_investing_def buy_loop_dated_eq buy_loop_shares)

lemma dca_eq:
  "data \<noteq> [] \<Longrightarrow>
   dollar_cost_averaging data amount =
     Inr (fmul (shares_bought (fdiv amount (Fin 12)) (bought (monthly_first_days data)))
            (Close (last data)),
          bought (monthly_first_days data))"
  by (cases data) (simp_all add: dollar_cost_averaging_def buy_loop_shares Let_def)

lemma peaks_eq:
  "data \<noteq> [] \<Longrightarrow>
   invest_at_peaks data amount =
     Inr (fmul (shares_bought amount (bought (dated (yearly_peaks data)))) (Close (last data)),
          bought (dated (yearly_peaks data)))"
  by (cases data) (simp_all add: invest_at_peaks_def buy_loop_dated_eq buy_loop_shares)

text \<open>
  On an empty frame every strategy of \<^verbatim>\<open>rolling-20year.py\<close> and \<^verbatim>\<open>stock-analysis.py\<close>
  raises; the two of \<^verbatim>\<open>market-analysis.py\<close> return 0.
\<close>

lemma strategies_raise_on_empty_frame:
  "rolling_perfect_market_timing [] amount = Inl IndexError
   \<and> rolling_immediate_investing [] amount = Inl IndexError
   \<and> stock_perfect_market_timing [] amount = Inl IndexError
   \<and> stock_immediate_investing [] amount = Inl IndexError
   \<and> dollar_cost_averaging [] amount = Inl IndexError
   \<and> invest_at_peaks [] amount = Inl IndexError
   \<and> market_perfect_market_timing [] amount = Fin 0
   \<and> market_immediate_investing [] amount = Fin 0"
  by (simp add: rolling_perfect_market_timing_def rolling_immediate_investing_def
      stock_perfect_market_timing_def stock_immediate_investing_def
      dollar_cost_averaging_def invest_at_peaks_def market_perfect_market_timing_def
      market_immediate_investing_def yearly_lows_def yearly_first_days_def resample_def
      period_range_def Let_def split: prod.splits)

section \<open>Buckets and the date span\<close>

lemma length_resample: "data \<noteq> [] \<Longrightarrow> length (resample period data) = n_buckets period data"
  by (cases data)
    (simp_all add: resample_def period_range_def n_buckets_def earliest_def latest_def)

lemma distinct_resample: "distinct (resample period data)"
  by (cases data) (simp_all add: resample_def period_range_def)

lemma distinct_groupby: "distinct (groupby period data)"
  by (simp add: groupby_def distinct_resample)

lemma length_groupby: "length (groupby period data) \<le> length (resample period data)"
  by (simp add: groupby_def)

lemma earliest_Min: "data \<noteq> [] \<Longrightarrow> earliest period data = Min (period ` set data)"
  by (cases data) (simp_all add: earliest_def flip: Min.set_eq_fold)

lemma latest_Max: "data \<noteq> [] \<Longrightarrow> latest period data = Max (period ` set data)"
  by (cases data) (simp_all add: latest_def flip: Max.set_eq_fold)

lemma sorted_wrt_hd:
  "xs \<noteq> [] \<Longrightarrow> sorted_wrt P xs \<Longrightarrow> x \<in> set xs \<Longrightarrow> x = hd xs \<or> P (hd xs) x"
  by (cases xs) auto

lemma sorted_wrt_last:
  assumes "xs \<noteq> []" and "sorted_wrt P xs" and "x \<in> set xs"
  shows "x = last xs \<or> P x (last xs)"
proof -
  have "xs = butlast xs @ [last xs]"
    using assms(1) by simp
  then have "sorted_wrt P (butlast xs @ [last xs])" and "x \<in> set (butlast xs @ [last xs])"
    using assms by simp_all
  then show ?thesis
    by (auto simp: sorted_wrt_append)
qed

lemma date_less_year: "date_less a b \<Longrightarrow> year a \<le> year b"
  by (auto simp: date_less_def date_le_def)

lemma date_less_month_index:
  "date_less a b \<Longrightarrow> valid_date a \<Longrightarrow> valid_date b \<Longrightarrow> month_index a \<le> month_index b"
  by (auto simp: date_less_def date_le_def month_index_def valid_date_def)

lemma month_of_index: "month_of b = month_index (timestamp b)"
  by (simp add: month_of_def)

text \<open>
  On a price series (valid dates, strictly increasing) the date span runs from the
  first bar to the last one.
\<close>

lemma n_buckets_first_last:
  assumes "data \<noteq> []" and "price_series data"
  shows "n_buckets year_of data = nat (year_of (last data) - year_of (hd data) + 1)"
    and "n_buckets month_of data = nat (month_of (last data) - month_of (hd data) + 1)"
proof -
  have chron: "sorted_wrt (\<lambda>a b. date_less (timestamp a) (timestamp b)) data"
    using assms(2) by (simp add: price_series_def chronological_def)
  have ok: "b \<in> set data \<Longrightarrow> valid_date (timestamp b)" for b
    using assms(2) by (simp add: price_series_def list_all_iff)
  have h: "hd data \<in> set data" and l: "last data \<in> set data"
    using assms(1) by simp_all
  have fin: "finite (year_of ` set data)" "finite (month_of ` set data)"
    by simp_all
  have ylo: "year_of (hd data) \<le> year_of b" if "b \<in> set data" for b
    using sorted_wrt_hd [OF assms(1) chron that]
    by (auto simp: year_of_def dest: date_less_year)
  have yhi: "year_of b \<le> year_of (last data)" if "b \<in> set data" for b
    using sorted_wrt_last [OF assms(1) chron that]
    by (auto simp: year_of_def dest: date_less_year)
  have mlo: "month_of (hd data) \<le> month_of b" if "b \<in> set data" for b
    using sorted_wrt_hd [OF assms(1) chron that] ok [OF h] ok [OF that]
    by (auto simp: month_of_index dest: date_less_month_index)
  have mhi: "month_of b \<le> month_of (last data)" if "b \<in> set data" for b
    using sorted_wrt_last [OF assms(1) chron that] ok [OF l] ok [OF that]
    by (auto simp: month_of_index dest: date_less_month_index)
  have "Min (year_of ` set data) = year_of (hd data)"
    using h ylo by (intro Min_eqI [OF fin(1)]) auto
  moreover have "Max (year_of ` set data) = year_of (last data)"
    using l yhi by (intro Max_eqI [OF fin(1)]) auto
  ultimately show "n_buckets year_of data = nat (year_of (last data) - year_of (hd data) + 1)"
    using assms(1) by (simp add: n_buckets_def earliest_Min latest_Max)
  have "Min (month_of ` set data) = month_of (hd data)"
    using h mlo by (intro Min_eqI [OF fin(2)]) auto
  moreover have "Max (month_of ` set data) = month_of (last data)"
    using l mhi by (intro Max_eqI [OF fin(2)]) auto
  ultimately show "n_buckets month_of data = nat (month_of (last data) - month_of (hd data) + 1)"
    using assms(1) by (simp add: n_buckets_def earliest_Min latest_Max)
qed

lemma length_bought: "length (bought rows) \<le> length rows"
  by (simp add: bought_def)

lemma length_dated: "length (dated rows) \<le> length rows"
  by (induction rows) (auto simp: dated_def split: option.splits)

lemma periods_bought:
  assumes "\<And>k. period (lab k) = k"
  shows "map (\<lambda>e. period (fst e)) (bought (map (\<lambda>k. (lab k, v k)) ks)) =
           filter (\<lambda>k. \<not> isna (v k)) ks"
  using assms by (induction ks) (auto simp: bought_def)

lemma periods_bought_dated:
  assumes "\<And>k d. k \<in> set ks \<Longrightarrow> lab k = Some d \<Longrightarrow> period d = k"
  shows "map (\<lambda>e. period (fst e)) (bought (dated (map (\<lambda>k. (lab k, v k)) ks))) =
           filter (\<lambda>k. lab k \<noteq> None \<and> \<not> isna (v k)) ks"
  using assms by (induction ks) (auto simp: bought_def dated_def split: option.splits)

lemma at_most_one_per_filter:
  assumes "map (\<lambda>e. period (fst e)) buys = filter Q ks" and "distinct ks"
  shows "at_most_one_per period buys"
  using assms by (simp add: at_most_one_per_def)

text \<open>Read as a count: no bucket holds two buy events.\<close>

lemma at_most_one_per_count:
  assumes "at_most_one_per period buys"
  shows "length (filter (\<lambda>e. period (fst e) = k) buys) \<le> 1"
proof -
  have "length (filter (\<lambda>e. period (fst e) = k) buys) =
          length (filter (\<lambda>x. x = k) (map (\<lambda>e. period (fst e)) buys))"
    by (simp add: filter_map comp_def)
  also have "\<dots> = card ({x. x = k} \<inter> set (map (\<lambda>e. period (fst e)) buys))"
    using assms unfolding at_most_one_per_def by (rule distinct_length_filter)
  also have "\<dots> \<le> card {k}"
    by (intro card_mono) auto
  finally show ?thesis
    by simp
qed

lemma idx_where_in_rows:
  assumes "idx_where col v rows = Some d"
  shows "\<exists>b\<in>set rows. timestamp b = d"
proof -
  from assms obtain b bs where f: "filter (\<lambda>b. feq (col b) v) rows = b # bs"
    and d: "timestamp b = d"
    by (auto simp: idx_where_def split: list.splits)
  have "b \<in> set (filter (\<lambda>b. feq (col b) v) rows)"
    by (simp add: f)
  then show ?thesis
    using d by auto
qed

lemma idx_where_year:
  "idx_where col v (rows_of year_of data y) = Some d \<Longrightarrow> year d = y"
  by (auto dest!: idx_where_in_rows simp: rows_of_def year_of_def)

lemma year_of_labels: "year (year_end y) = y" "year (year_start y) = y"
  by (simp_all add: year_end_def year_start_def)

lemma month_index_month_start: "month_index (month_start m) = m"
  by (simp add: month_index_def month_start_def)

text \<open>Each strategy stays within the buckets of the date span, one event per bucket.\<close>

lemma rolling_pmt_within:
  assumes "data \<noteq> []"
  shows "within_buckets year_of year data (rolling_perfect_market_timing data amount)"
proof -
  have "map (\<lambda>e. year (fst e)) (bought (yearly_lows data)) =
          filter (\<lambda>y. \<not> isna (nan_min (map Low (rows_of year_of data y)))) (resample year_of data)"
    unfolding yearly_lows_def by (rule periods_bought) (simp add: year_of_labels)
  then have "at_most_one_per year (bought (yearly_lows data))"
    by (rule at_most_one_per_filter) (rule distinct_resample)
  moreover have "length (bought (yearly_lows data)) \<le> n_buckets year_of data"
    using length_bought [of "yearly_lows data"] length_resample [OF assms, of year_of]
    by (simp add: yearly_lows_def)
  ultimately show ?thesis
    using assms by (simp add: within_buckets_def rolling_pmt_eq)
qed

lemma rolling_ii_within:
  assumes "data \<noteq> []"
  shows "within_buckets year_of year data (rolling_immediate_investing data amount)"
proof -
  have "map (\<lambda>e. year (fst e)) (bought (yearly_first_days data)) =
          filter (\<lambda>y. \<not> isna (first_valid (map Open (rows_of year_of data y))))
            (resample year_of data)"
    unfolding yearly_first_days_def by (rule periods_bought) (simp add: year_of_labels)
  then have "at_most_one_per year (bought (yearly_first_days data))"
    by (rule at_most_one_per_filter) (rule distinct_resample)
  moreover have "length (bought (yearly_first_days data)) \<le> n_buckets year_of data"
    using length_bought [of "yearly_first_days data"] length_resample [OF assms, of year_of]
    by (simp add: yearly_first_days_def)
  ultimately show ?thesis
    using assms by (simp add: within_buckets_def rolling_ii_eq)
qed

lemma dca_within:
  assumes "data \<noteq> []"
  shows "within_buckets month_of month_index data (dollar_cost_averaging data amount)"
proof -
  have "map (\<lambda>e. month_index (fst e)) (bought (monthly_first_days data)) =
          filter (\<lambda>m. \<not> isna (first_valid (map Open (rows_of month_of data m))))
            (resample month_of data)"
    unfolding monthly_first_days_def by (rule periods_bought) (simp add: month_index_month_start)
  then have "at_most_one_per month_index (bought (monthly_first_days data))"
    by (rule at_most_one_per_filter) (rule distinct_resample)
  moreover have "length (bought (monthly_first_days data)) \<le> n_buckets month_of data"
    using length_bought [of "monthly_first_days data"] length_resample [OF assms, of month_of]
    by (simp add: monthly_first_days_def)
  ultimately show ?thesis
    using assms by (simp add: within_buckets_def dca_eq)
qed

lemma dated_within:
  assumes "data \<noteq> []"
    and rows: "rows = map (\<lambda>y. (lab y, v y)) (groupby year_of data)"
    and lab: "\<And>y d. lab y = Some d \<Longrightarrow> year d = y"
  shows "length (bought (dated rows)) \<le> n_buckets year_of data
         \<and> at_most_one_per year (bought (dated rows))"
proof -
  have "map (\<lambda>e. year (fst e)) (bought (dated rows)) =
          filter (\<lambda>y. lab y \<noteq> None \<and> \<not> isna (v y)) (groupby year_of data)"
    unfolding rows by (rule periods_bought_dated) (rule lab)
  then have "at_most_one_per year (bought (dated rows))"
    by (rule at_most_one_per_filter) (rule distinct_groupby)
  moreover have "length (bought (dated rows)) \<le> length (groupby year_of data)"
    using length_bought [of "dated rows"] length_dated [of rows] by (simp add: rows)
  then have "length (bought (dated rows)) \<le> n_buckets year_of data"
    using length_groupby [of year_of data] length_resample [OF assms(1), of year_of] by simp
  ultimately show ?thesis
    by simp
qed

lemma stock_pmt_within:
  assumes "data \<noteq> []"
  shows "within_buckets year_of year data (stock_perfect_market_timing data amount)"
  using assms dated_within [OF assms, of "stock_yearly_lows data"
      "\<lambda>y. idxmin Low (rows_of year_of data y)" "\<lambda>y. nan_min (map Low (rows_of year_of data y))"]
  by (simp add: within_buckets_def stock_pmt_eq stock_yearly_lows_def idxmin_def idx_where_year)

lemma stock_ii_within:
  assumes "data \<noteq> []"
  shows "within_buckets year_of year data (stock_immediate_investing data amount)"
  using assms dated_within [OF assms, of "stock_yearly_first_days data"
      "\<lambda>y. Some (year_start y)" "\<lambda>y. first_valid (map Open (rows_of year_of data y))"]
  by (auto simp: within_buckets_def stock_ii_eq stock_yearly_first_days_def year_of_labels)

lemma peaks_within:
  assumes "data \<noteq> []"
  shows "within_buckets year_of year data (invest_at_peaks data amount)"
  using assms dated_within [OF assms, of "yearly_peaks data"
      "\<lambda>y. idxmax High (rows_of year_of data y)" "\<lambda>y. nan_max (map High (rows_of year_of data y))"]
  by (simp add: within_buckets_def peaks_eq yearly_peaks_def idxmax_def idx_where_year)

section \<open>Buying lower buys more\<close>

lemma fless_Fin_cases:
  assumes "fless (Fin l) x"
  obtains p where "x = Fin p" and "l < p" | "x = PInf"
  using assms by (cases x) (auto simp: fless_def)

lemma loops_ordered:
  assumes "0 \<le> a"
    and "\<forall>k\<in>set ks. (lo k = NaN \<and> opn k = NaN) \<or> (finite_pos (lo k) \<and> fless (lo k) (opn k))"
    and "sb \<le> sa"
  shows "\<exists>ta tb. fst (buy_loop (Fin a) (map (\<lambda>k. (la k, lo k)) ks) (Fin sa, bpa)) = Fin ta
           \<and> fst (buy_loop (Fin a) (map (\<lambda>k. (lb k, opn k)) ks) (Fin sb, bpb)) = Fin tb
           \<and> tb \<le> ta"
  using assms(2,3)
proof (induction ks arbitrary: sa sb bpa bpb)
  case Nil
  then show ?case by simp
next
  case (Cons k ks)
  from Cons.prems(1) have rest:
    "\<forall>k\<in>set ks. (lo k = NaN \<and> opn k = NaN) \<or> (finite_pos (lo k) \<and> fless (lo k) (opn k))"
    by simp
  from Cons.prems(1) consider
      (skip) "lo k = NaN" "opn k = NaN"
    | (buy) "finite_pos (lo k)" "fless (lo k) (opn k)"
    by auto
  then show ?case
  proof cases
    case skip
    then show ?thesis
      using Cons.IH [OF rest Cons.prems(2)] by (simp add: isna_def)
  next
    case buy
    from buy(1) obtain l where l: "lo k = Fin l" "0 < l"
      by (cases "lo k") (auto simp: finite_pos_def)
    from buy(2) l(1) have "fless (Fin l) (opn k)"
      by simp
    then show ?thesis
    proof (cases rule: fless_Fin_cases)
      case (1 p)
      have "a / p \<le> a / l"
        using assms(1) l(2) 1(2) by (simp add: frac_le)
      then have le: "sb + a / p \<le> sa + a / l"
        using Cons.prems(2) by simp
      have "p \<noteq> 0"
        using l(2) 1(2) by simp
      then show ?thesis
        using Cons.IH [OF rest le] l 1 by (simp add: isna_def)
    next
      case 2
      have "0 \<le> a / l"
        using assms(1) l(2) by simp
      then have le: "sb + 0 \<le> sa + a / l"
        using Cons.prems(2) by simp
      show ?thesis
        using Cons.IH [OF rest le] l 2 by (simp add: isna_def)
    qed
  qed
qed

section \<open>Evaluating the strategies on concrete series\<close>

lemmas eval_defs =
  finite_bar_def yearly_lows_def yearly_first_days_def stock_yearly_lows_def
  stock_yearly_first_days_def monthly_first_days_def yearly_peaks_def
  resample_def groupby_def period_range_def rows_of_def year_of_def month_of_def
  month_index_def
  nan_min_def nan_max_def first_valid_def valid_def isna_def fless_def
  idxmin_def idxmax_def idx_where_def year_end_def year_start_def month_start_def
  date_le_def shares_bought_def bought_def dated_def

section \<open>Valuation at the last close\<close>

text \<open>
  The six strategies of \<^verbatim>\<open>rolling-20year.py\<close> and \<^verbatim>\<open>stock-analysis.py\<close> value the
  position once, after the loop: the result is the shares bought over all buy events
  times the close of the last bar.
\<close>

lemma sibling_strategies_value_at_last_close:
  assumes "data \<noteq> []"
  shows "(\<exists>buys. rolling_perfect_market_timing data amount =
            Inr (fmul (shares_bought amount buys) (Close (last data)), buys))
       \<and> (\<exists>buys. rolling_immediate_investing data amount =
            Inr (fmul (shares_bought amount buys) (Close (last data)), buys))
       \<and> (\<exists>buys. stock_perfect_market_timing data amount =
            Inr (fmul (shares_bought amount buys) (Close (last data)), buys))
       \<and> (\<exists>buys. stock_immediate_investing data amount =
            Inr (fmul (shares_bought amount buys) (Close (last data)), buys))
       \<and> (\<exists>buys. dollar_cost_averaging data amount =
            Inr (fmul (shares_bought (fdiv amount (Fin 12)) buys) (Close (last data)), buys))
       \<and> (\<exists>buys. invest_at_peaks data amount =
            Inr (fmul (shares_bought amount buys) (Close (last data)), buys))"
  using assms
  by (simp add: rolling_pmt_eq rolling_ii_eq stock_pmt_eq stock_ii_eq dca_eq peaks_eq)

text \<open>
  C2. The final value is the total of the shares bought in all processed buckets times
  the close of the last bar. \<^verbatim>\<open>perfect_market_timing\<close> of \<^verbatim>\<open>market-analysis.py\<close> does
  not do this: it revalues inside the loop, only when the frame has a row on or after
  the bucket's label, the 31st of December. On the series of the two bars 2019-12-31
  (low 40) and 2020-06-15 (low 50, close 100) with 1000 a year, 25 and then 20 shares
  are bought, and the claim's value is \<open>45 * 100 = 4500\<close>, which is what the same
  function of \<^verbatim>\<open>rolling-20year.py\<close> returns; \<^verbatim>\<open>market-analysis.py\<close> returns
  \<open>25 * 100 = 2500\<close>, without the shares of the final bucket.
\<close>

theorem market_perfect_timing_omits_final_bucket:
  "market_perfect_market_timing
     [finite_bar 2019 12 31 55 70 40 60, finite_bar 2020 6 15 60 110 50 100] (Fin 1000) =
     Fin 2500
   \<and> fmul
       (shares_bought (Fin 1000)
          (bought (yearly_lows
             [finite_bar 2019 12 31 55 70 40 60, finite_bar 2020 6 15 60 110 50 100])))
       (Close (last [finite_bar 2019 12 31 55 70 40 60, finite_bar 2020 6 15 60 110 50 100])) =
     Fin 4500
   \<and> rolling_perfect_market_timing
       [finite_bar 2019 12 31 55 70 40 60, finite_bar 2020 6 15 60 110 50 100] (Fin 1000) =
     Inr (Fin 4500, [(year_end 2019, Fin 40), (year_end 2020, Fin 50)])"
  by (simp add: market_perfect_market_timing_def rolling_perfect_market_timing_def eval_defs)

section \<open>A single bar\<close>

text \<open>
  On a series of one bar with positive prices the yearly strategies of
  \<^verbatim>\<open>rolling-20year.py\<close> and \<^verbatim>\<open>stock-analysis.py\<close>, and \<^verbatim>\<open>immediate_investing\<close> of
  \<^verbatim>\<open>market-analysis.py\<close>, buy once at the bar's low, open or high and return
  \<open>(annual_amount / price) * close\<close>.
\<close>

lemma single_bar_sibling_strategies:
  assumes "0 < opn" and "0 < hi" and "0 < lo" and "0 < cl" and "1 \<le> m" and "1 \<le> d"
  shows "rolling_perfect_market_timing [finite_bar y m d opn hi lo cl] amount =
           Inr (fmul (fdiv amount (Fin lo)) (Fin cl), [(year_end y, Fin lo)])"
    and "rolling_immediate_investing [finite_bar y m d opn hi lo cl] amount =
           Inr (fmul (fdiv amount (Fin opn)) (Fin cl), [(year_start y, Fin opn)])"
    and "stock_perfect_market_timing [finite_bar y m d opn hi lo cl] amount =
           Inr (fmul (fdiv amount (Fin lo)) (Fin cl),
                [(\<lparr>year = y, month = m, day = d\<rparr>, Fin lo)])"
    and "stock_immediate_investing [finite_bar y m d opn hi lo cl] amount =
           Inr (fmul (fdiv amount (Fin opn)) (Fin cl), [(year_start y, Fin opn)])"
    and "invest_at_peaks [finite_bar y m d opn hi lo cl] amount =
           Inr (fmul (fdiv amount (Fin hi)) (Fin cl),
                [(\<lparr>year = y, month = m, day = d\<rparr>, Fin hi)])"
    and "market_immediate_investing [finite_bar y m d opn hi lo cl] amount =
           fmul (fdiv amount (Fin opn)) (Fin cl)"
  using assms
  by (auto simp: rolling_perfect_market_timing_def rolling_immediate_investing_def
      stock_perfect_market_timing_def stock_immediate_investing_def invest_at_peaks_def
      market_immediate_investing_def fadd_zero_left Let_def eval_defs)

text \<open>
  \<^verbatim>\<open>perfect_market_timing\<close> of \<^verbatim>\<open>market-analysis.py\<close> returns 0 on every single bar
  that is not dated the 31st of December.
\<close>

lemma market_perfect_timing_single_bar_zero:
  assumes "m \<le> 12" and "d \<le> 31" and "\<not> (m = 12 \<and> d = 31)"
  shows "market_perfect_market_timing [finite_bar y m d opn hi lo cl] amount = Fin 0"
  using assms by (auto simp: market_perfect_market_timing_def Let_def eval_defs)

text \<open>
  C8. On a series of exactly one bar with positive prices each yearly strategy buys
  at most once, at the bar's low, open or high, and returns
  \<open>(annual_amount / bar_price) * bar_close\<close>. \<^verbatim>\<open>perfect_market_timing\<close> of
  \<^verbatim>\<open>market-analysis.py\<close> does not: on the single bar of 2020-06-15 (low 50, close 100)
  with 1000 a year the claim's value is \<open>(1000 / 50) * 100 = 2000\<close>, which the same
  function of \<^verbatim>\<open>rolling-20year.py\<close> returns; \<^verbatim>\<open>market-analysis.py\<close> returns 0, because
  no row is dated on or after 2020-12-31.
\<close>

theorem market_perfect_timing_single_bar:
  "market_perfect_market_timing [finite_bar 2020 6 15 60 110 50 100] (Fin 1000) = Fin 0
   \<and> fmul (fdiv (Fin 1000) (Low (finite_bar 2020 6 15 60 110 50 100)))
       (Close (finite_bar 2020 6 15 60 110 50 100)) = Fin 2000
   \<and> rolling_perfect_market_timing [finite_bar 2020 6 15 60 110 50 100] (Fin 1000) =
     Inr (Fin 2000, [(year_end 2020, Fin 50)])"
  by (simp add: market_perfect_market_timing_def rolling_perfect_market_timing_def eval_defs)

section \<open>The empty series\<close>

text \<open>
  C3. For a frame with no rows \<^verbatim>\<open>calculate_strategy_returns\<close> returns the value 0 and
  an empty list of buy events, whatever the strategy, and does not raise: the guard
  returns before the strategy is called.
\<close>

theorem calculate_strategy_returns_empty:
  "calculate_strategy_returns [] annual_investment strategy_func = Inr (Fin 0, [])"
  by (simp add: calculate_strategy_returns_def)

theorem calculate_strategy_returns_empty_witness:
  "calculate_strategy_returns [] (Fin 2000) rolling_perfect_market_timing = Inr (Fin 0, [])
   \<and> calculate_strategy_returns [] (Fin 2000) rolling_immediate_investing = Inr (Fin 0, [])
   \<and> rolling_perfect_market_timing [] (Fin 2000) = Inl IndexError"
  using calculate_strategy_returns_empty [of "Fin 2000" rolling_perfect_market_timing]
    calculate_strategy_returns_empty [of "Fin 2000" rolling_immediate_investing]
    strategies_raise_on_empty_frame [of "Fin 2000"]
  by blast

section \<open>Skipped buckets\<close>




section \<open>Buy events and buckets\<close>

text \<open>
  C7. On a non-empty series every strategy that records buy events returns at most
  as many of them as the date span has buckets (the calendar years, for
  \<^verbatim>\<open>dollar_cost_averaging\<close> the calendar months, from the earliest to the latest bar),
  and at most one of them is dated in any one bucket. On a price series (valid dates in
  strictly increasing order) the span is counted from the first bar to the last.
\<close>

theorem buy_events_within_buckets:
  assumes "data \<noteq> []"
  shows "within_buckets year_of year data (rolling_perfect_market_timing data amount)
       \<and> within_buckets year_of year data (rolling_immediate_investing data amount)
       \<and> within_buckets year_of year data (stock_perfect_market_timing data amount)
       \<and> within_buckets year_of year data (stock_immediate_investing data amount)
       \<and> within_buckets month_of month_index data (dollar_cost_averaging data amount)
       \<and> within_buckets year_of year data (invest_at_peaks data amount)
       \<and> (price_series data \<longrightarrow>
            n_buckets year_of data = nat (year_of (last data) - year_of (hd data) + 1)
          \<and> n_buckets month_of data = nat (month_of (last data) - month_of (hd data) + 1))"
  using assms rolling_pmt_within [OF assms] rolling_ii_within [OF assms]
    stock_pmt_within [OF assms] stock_ii_within [OF assms] dca_within [OF assms]
    peaks_within [OF assms] n_buckets_first_last [OF assms]
  by blast

theorem buy_events_within_buckets_witness:
  "[finite_bar 2017 11 3 20 30 4 25, finite_bar 2019 12 31 55 70 40 60,
    finite_bar 2020 6 15 60 110 50 100] \<noteq> []
   \<and> price_series
       [finite_bar 2017 11 3 20 30 4 25, finite_bar 2019 12 31 55 70 40 60,
        finite_bar 2020 6 15 60 110 50 100]
   \<and> n_buckets year_of
       [finite_bar 2017 11 3 20 30 4 25, finite_bar 2019 12 31 55 70 40 60,
        finite_bar 2020 6 15 60 110 50 100] = 4
   \<and> n_buckets month_of
       [finite_bar 2017 11 3 20 30 4 25, finite_bar 2019 12 31 55 70 40 60,
        finite_bar 2020 6 15 60 110 50 100] = 32
   \<and> within_buckets year_of year
       [finite_bar 2017 11 3 20 30 4 25, finite_bar 2019 12 31 55 70 40 60,
        finite_bar 2020 6 15 60 110 50 100]
       (rolling_perfect_market_timing
          [finite_bar 2017 11 3 20 30 4 25, finite_bar 2019 12 31 55 70 40 60,
           finite_bar 2020 6 15 60 110 50 100] (Fin 1000))
   \<and> within_buckets month_of month_index
       [finite_bar 2017 11 3 20 30 4 25, finite_bar 2019 12 31 55 70 40 60,
        finite_bar 2020 6 15 60 110 50 100]
       (dollar_cost_averaging
          [finite_bar 2017 11 3 20 30 4 25, finite_bar 2019 12 31 55 70 40 60,
           finite_bar 2020 6 15 60 110 50 100] (Fin 1000))"
proof -
  let ?data = "[finite_bar 2017 11 3 20 30 4 25, finite_bar 2019 12 31 55 70 40 60,
    finite_bar 2020 6 15 60 110 50 100]"
  have ne: "?data \<noteq> []"
    by simp
  have ps: "price_series ?data"
    by (simp add: price_series_def chronological_def valid_date_def date_less_def date_le_def
        finite_bar_def)
  have hd_last: "hd ?data = finite_bar 2017 11 3 20 30 4 25"
    "last ?data = finite_bar 2020 6 15 60 110 50 100"
    by simp_all
  note all = buy_events_within_buckets [OF ne, of "Fin 1000"]
  from all ps have "n_buckets year_of ?data = nat (year_of (last ?data) - year_of (hd ?data) + 1)"
    by blast
  then have years: "n_buckets year_of ?data = 4"
    unfolding hd_last by (simp add: year_of_def finite_bar_def)
  from all ps
  have "n_buckets month_of ?data = nat (month_of (last ?data) - month_of (hd ?data) + 1)"
    by blast
  then have months: "n_buckets month_of ?data = 32"
    unfolding hd_last by (simp add: month_of_def month_index_def finite_bar_def)
  from all ne ps years months show ?thesis
    by blast
qed

section \<open>Perfect timing against immediate investing\<close>

text \<open>
  C9 (as stated). The claim holds for every series whose yearly minimum low is below
  the yearly first open, and every annual amount. It fails for a negative amount
  (bar with open 2, low 1, close 1 and the amount \<open>-1\<close>: perfect timing returns \<open>-1\<close>,
  immediate investing \<open>-1/2\<close>), for a missing last close (both values are NaN, and NaN
  is not \<open>\<ge>\<close> NaN), and for a negative low (low \<open>-1\<close>, open 1, amount 1: perfect timing
  returns \<open>-1\<close>, immediate investing 1).
\<close>

theorem perfect_timing_below_immediate:
  "yearly_low_below_open [finite_bar 2020 6 15 2 3 1 1]
   \<and> rolling_perfect_market_timing [finite_bar 2020 6 15 2 3 1 1] (Fin (- 1)) =
     Inr (Fin (- 1), [(year_end 2020, Fin 1)])
   \<and> rolling_immediate_investing [finite_bar 2020 6 15 2 3 1 1] (Fin (- 1)) =
     Inr (Fin (- 1 / 2), [(year_start 2020, Fin 2)])
   \<and> \<not> fle (Fin (- 1 / 2)) (Fin (- 1))
   \<and> yearly_low_below_open
       [\<lparr>timestamp = \<lparr>year = 2020, month = 6, day = 15\<rparr>,
         Open = Fin 2, High = Fin 3, Low = Fin 1, Close = NaN\<rparr>]
   \<and> rolling_perfect_market_timing
       [\<lparr>timestamp = \<lparr>year = 2020, month = 6, day = 15\<rparr>,
         Open = Fin 2, High = Fin 3, Low = Fin 1, Close = NaN\<rparr>] (Fin 1) =
     Inr (NaN, [(year_end 2020, Fin 1)])
   \<and> rolling_immediate_investing
       [\<lparr>timestamp = \<lparr>year = 2020, month = 6, day = 15\<rparr>,
         Open = Fin 2, High = Fin 3, Low = Fin 1, Close = NaN\<rparr>] (Fin 1) =
     Inr (NaN, [(year_start 2020, Fin 2)])
   \<and> \<not> fle NaN NaN
   \<and> yearly_low_below_open [finite_bar 2020 6 15 1 3 (- 1) 1]
   \<and> rolling_perfect_market_timing [finite_bar 2020 6 15 1 3 (- 1) 1] (Fin 1) =
     Inr (Fin (- 1), [(year_end 2020, Fin (- 1))])
   \<and> rolling_immediate_investing [finite_bar 2020 6 15 1 3 (- 1) 1] (Fin 1) =
     Inr (Fin 1, [(year_start 2020, Fin 1)])
   \<and> \<not> fle (Fin 1) (Fin (- 1))"
  by (simp add: rolling_perfect_market_timing_def rolling_immediate_investing_def
      yearly_low_below_open_def eval_defs)

text \<open>
  C9 (amended). For every non-empty series whose last close is present and not
  negative, in which every calendar-year bucket that has rows has a positive minimum
  low strictly below its first valid open, and for every finite annual amount that is
  not negative, both strategies of \<^verbatim>\<open>rolling-20year.py\<close> return a value and the value of
  perfect timing is greater than or equal to the value of immediate investing.
\<close>

theorem perfect_timing_at_least_immediate:
  assumes "data \<noteq> []" and "yearly_low_below_open data" and "yearly_lows_positive data"
    and "finite_nonneg annual_investment" and "finite_nonneg (Close (last data))"
  shows "\<exists>vp bp vi bi.
           rolling_perfect_market_timing data annual_investment = Inr (vp, bp)
         \<and> rolling_immediate_investing data annual_investment = Inr (vi, bi)
         \<and> fle vi vp"
proof -
  from assms(4) obtain a where a: "annual_investment = Fin a" "0 \<le> a"
    by (cases annual_investment) (auto simp: finite_nonneg_def)
  from assms(5) obtain c where c: "Close (last data) = Fin c" "0 \<le> c"
    by (cases "Close (last data)") (auto simp: finite_nonneg_def)
  let ?lo = "\<lambda>y. nan_min (map Low (rows_of year_of data y))"
  let ?op = "\<lambda>y. first_valid (map Open (rows_of year_of data y))"
  have empty: "rows_of year_of data y = [] \<Longrightarrow> ?lo y = NaN \<and> ?op y = NaN" for y
    by (simp add: nan_min_def first_valid_def valid_def)
  have each: "\<forall>y\<in>set (resample year_of data).
                (?lo y = NaN \<and> ?op y = NaN) \<or> (finite_pos (?lo y) \<and> fless (?lo y) (?op y))"
    using assms(2,3) empty
    by (auto simp: yearly_low_below_open_def yearly_lows_positive_def list_all_iff)
  have z: "(0::real) \<le> 0"
    by simp
  from loops_ordered [OF a(2) each z, where la = year_end and bpa = "[]"
      and lb = year_start and bpb = "[]"]
  obtain ta tb where t:
    "fst (buy_loop (Fin a) (yearly_lows data) (Fin 0, [])) = Fin ta"
    "fst (buy_loop (Fin a) (yearly_first_days data) (Fin 0, [])) = Fin tb"
    "tb \<le> ta"
    by (auto simp: yearly_lows_def yearly_first_days_def)
  have "tb * c \<le> ta * c"
    using t(3) c(2) by (simp add: mult_right_mono)
  then show ?thesis
    using assms(1) t(1,2) a(1) c(1)
    by (simp add: rolling_pmt_eq rolling_ii_eq buy_loop_shares)
qed

theorem perfect_timing_at_least_immediate_witness:
  "[finite_bar 2017 11 3 20 30 4 25, finite_bar 2019 12 31 55 70 40 60,
    finite_bar 2020 6 15 60 110 50 100] \<noteq> []
   \<and> yearly_low_below_open
       [finite_bar 2017 11 3 20 30 4 25, finite_bar 2019 12 31 55 70 40 60,
        finite_bar 2020 6 15 60 110 50 100]
   \<and> yearly_lows_positive
       [finite_bar 2017 11 3 20 30 4 25, finite_bar 2019 12 31 55 70 40 60,
        finite_bar 2020 6 15 60 110 50 100]
   \<and> finite_nonneg (Fin 1000)
   \<and> finite_nonneg
       (Close (last [finite_bar 2017 11 3 20 30 4 25, finite_bar 2019 12 31 55 70 40 60,
                     finite_bar 2020 6 15 60 110 50 100]))
   \<and> (\<exists>vp bp vi bi.
         rolling_perfect_market_timing
           [finite_bar 2017 11 3 20 30 4 25, finite_bar 2019 12 31 55 70 40 60,
            finite_bar 2020 6 15 60 110 50 100] (Fin 1000) = Inr (vp, bp)
       \<and> rolling_immediate_investing
           [finite_bar 2017 11 3 20 30 4 25, finite_bar 2019 12 31 55 70 40 60,
            finite_bar 2020 6 15 60 110 50 100] (Fin 1000) = Inr (vi, bi)
       \<and> fle vi vp)"
proof -
  let ?data = "[finite_bar 2017 11 3 20 30 4 25, finite_bar 2019 12 31 55 70 40 60,
    finite_bar 2020 6 15 60 110 50 100]"
  have ne: "?data \<noteq> []"
    by simp
  have below: "yearly_low_below_open ?data"
    by (simp add: yearly_low_below_open_def eval_defs)
  have pos: "yearly_lows_positive ?data"
    by (simp add: yearly_lows_positive_def finite_pos_def eval_defs)
  have amt: "finite_nonneg (Fin 1000)"
    by (simp add: finite_nonneg_def)
  have cl: "finite_nonneg (Close (last ?data))"
    by (simp add: finite_nonneg_def finite_bar_def)
  from perfect_timing_at_least_immediate [OF ne below pos amt cl] ne below pos amt cl
  show ?thesis
    by blast
qed

section \<open>The dates of immediate investing in the dashboard\<close>

lemma dated_Some:
  "dated (map (\<lambda>y. (Some (f y), g y)) ks) = map (\<lambda>y. (f y, g y)) ks"
  by (induction ks) (simp_all add: dated_def)

lemma bought_map:
  "bought (map h ks) = map h (filter (\<lambda>y. \<not> isna (snd (h y))) ks)"
  by (simp add: bought_def filter_map comp_def)

text \<open>
  C10. \<^verbatim>\<open>immediate_investing\<close> of \<^verbatim>\<open>stock-analysis.py\<close> records, for every year that has
  rows and a valid open, the pair of the first day of that year (the period's start
  timestamp, the 1st of January) and the first valid open of the year; the date is not
  taken from the bar that supplies the price. When no bar of the series is dated the
  1st of January, no recorded date is a date of the series.
\<close>

theorem immediate_investing_records_year_start:
  "buys_of (stock_immediate_investing data amount) =
     map (\<lambda>y. (year_start y, first_valid (map Open (rows_of year_of data y))))
       (filter (\<lambda>y. \<not> isna (first_valid (map Open (rows_of year_of data y))))
          (groupby year_of data))
   \<and> ((\<forall>b\<in>set data. timestamp b \<noteq> year_start (year_of b)) \<longrightarrow>
        (\<forall>e\<in>set (buys_of (stock_immediate_investing data amount)).
           fst e \<notin> timestamp ` set data))"
proof -
  let ?ks = "filter (\<lambda>y. \<not> isna (first_valid (map Open (rows_of year_of data y))))
    (groupby year_of data)"
  have eq: "buys_of (stock_immediate_investing data amount) =
      map (\<lambda>y. (year_start y, first_valid (map Open (rows_of year_of data y)))) ?ks"
  proof (cases "data = []")
    case True
    then show ?thesis
      by (simp add: strategies_raise_on_empty_frame buys_of_def groupby_def resample_def
          period_range_def)
  next
    case False
    then show ?thesis
      by (simp add: stock_ii_eq buys_of_def stock_yearly_first_days_def dated_Some bought_map)
  qed
  have "fst e \<notin> timestamp ` set data"
    if none: "\<forall>b\<in>set data. timestamp b \<noteq> year_start (year_of b)"
      and e: "e \<in> set (buys_of (stock_immediate_investing data amount))" for e
  proof
    assume "fst e \<in> timestamp ` set data"
    then obtain b where b: "b \<in> set data" "timestamp b = fst e"
      by auto
    from e eq obtain y where "fst e = year_start y"
      by auto
    with b(2) have "timestamp b = year_start (year_of b)"
      by (simp add: year_of_def year_start_def)
    with none b(1) show False
      by blast
  qed
  with eq show ?thesis
    by blast
qed

theorem immediate_investing_records_year_start_witness:
  "buys_of (stock_immediate_investing
      [finite_bar 2020 1 2 60 110 50 100, finite_bar 2021 1 4 70 120 65 110] (Fin 1000)) =
     [(\<lparr>year = 2020, month = 1, day = 1\<rparr>, Fin 60), (\<lparr>year = 2021, month = 1, day = 1\<rparr>, Fin 70)]
   \<and> map timestamp [finite_bar 2020 1 2 60 110 50 100, finite_bar 2021 1 4 70 120 65 110] =
     [\<lparr>year = 2020, month = 1, day = 2\<rparr>, \<lparr>year = 2021, month = 1, day = 4\<rparr>]
   \<and> list_all
       (\<lambda>e. fst e \<notin>
          timestamp ` set [finite_bar 2020 1 2 60 110 50 100, finite_bar 2021 1 4 70 120 65 110])
       (buys_of (stock_immediate_investing
          [finite_bar 2020 1 2 60 110 50 100, finite_bar 2021 1 4 70 120 65 110] (Fin 1000)))"
proof -
  let ?data = "[finite_bar 2020 1 2 60 110 50 100, finite_bar 2021 1 4 70 120 65 110]"
  note inst = immediate_investing_records_year_start [of ?data "Fin 1000"]
  from inst have "buys_of (stock_immediate_investing ?data (Fin 1000)) =
      map (\<lambda>y. (year_start y, first_valid (map Open (rows_of year_of ?data y))))
        (filter (\<lambda>y. \<not> isna (first_valid (map Open (rows_of year_of ?data y))))
           (groupby year_of ?data))"
    by blast
  then have buys: "buys_of (stock_immediate_investing ?data (Fin 1000)) =
      [(\<lparr>year = 2020, month = 1, day = 1\<rparr>, Fin 60), (\<lparr>year = 2021, month = 1, day = 1\<rparr>, Fin 70)]"
    by (simp add: eval_defs)
  have ts: "map timestamp ?data =
      [\<lparr>year = 2020, month = 1, day = 2\<rparr>, \<lparr>year = 2021, month = 1, day = 4\<rparr>]"
    by (simp add: finite_bar_def)
  have "\<forall>b\<in>set ?data. timestamp b \<noteq> year_start (year_of b)"
    by (simp add: finite_bar_def year_start_def year_of_def)
  with inst have "\<forall>e\<in>set (buys_of (stock_immediate_investing ?data (Fin 1000))).
      fst e \<notin> timestamp ` set ?data"
    by blast
  then have "list_all (\<lambda>e. fst e \<notin> timestamp ` set ?data)
      (buys_of (stock_immediate_investing ?data (Fin 1000)))"
    by (simp add: list_all_iff)
  with buys ts show ?thesis
    by blast
qed

end
